theory Spec2Isabelle
  imports Main
begin

section \<open>The study tool: one component, its state and its handlers\<close>

text \<open>
  The program is a single React component, \<^verbatim>\<open>App\<close> in \<^verbatim>\<open>src/index.tsx\<close>. Its
  state is a flat set of \<^verbatim>\<open>useState\<close> cells; every handler reads the cells of the
  render it was created in and queues new values for some of them. A handler is
  embedded as a function from the state it reads to the state after its queued
  updates. No handler reads a cell after writing it, so threading one state through
  a handler gives the same result as reading the render's snapshot.

  What lies outside React is made part of the state as well: the two entries of
  \<^verbatim>\<open>localStorage\<close>, what was written with \<^verbatim>\<open>console.error\<close>, the requests sent to
  the generative service and the callbacks waiting in \<^verbatim>\<open>setTimeout\<close>.
\<close>

subsection \<open>Data\<close>

datatype input_type = TextInput | ImageInput

datatype generation_mode = Flashcards | Mcqs

text \<open>
  An item is a plain object parsed from the service's JSON. The flashcard schema
  requires \<^verbatim>\<open>question\<close> and \<^verbatim>\<open>answer\<close>, the MCQ schema \<^verbatim>\<open>question\<close>,
  \<^verbatim>\<open>options\<close> (an array of strings, of no stated length) and \<^verbatim>\<open>correctAnswer\<close>.
  A field an object does not have is \<open>None\<close>.
\<close>

record item =
  question :: string
  answer :: "string option"
  options :: "string list option"
  correctAnswer :: "string option"
  icon :: "string option"

text \<open>
  A file chosen in the file input. \<open>readResult\<close> is what a \<^verbatim>\<open>FileReader\<close> gives
  for it with \<^verbatim>\<open>readAsDataURL\<close>: the data URL, or \<open>None\<close> when the read fails.
\<close>

record picked_file =
  fileName :: string
  fileType :: string
  readResult :: "string option"

record history_item =
  hid :: nat
  timestamp :: string
  hInputType :: input_type
  hGenerationMode :: generation_mode
  inputContent :: "string option"
  generatedData :: "item list"
  hTheme :: "string option"

record local_storage =
  studyAppHistory :: "history_item list option"
  studyAppTheme :: "string option"

datatype exn = ServiceError | SyntaxError | IconError | TypeError | QuotaExceededError

datatype part = InlineData "string option" string | TextPart string

datatype request = GenerateContent "part list" generation_mode | GenerateImages string

record app =
  inputType :: input_type
  generationMode :: generation_mode
  textContent :: string
  imageFile :: "picked_file option"
  imagePreview :: "string option"
  generateIcons :: bool
  flashcards :: "item list"
  mcqs :: "item list"
  isLoading :: bool
  loadingMessage :: string
  error :: "string option"
  currentCard :: int
  isFlipped :: bool
  currentMcq :: int
  selectedOption :: "string option"
  isAnswered :: bool
  score :: int
  quizFinished :: bool
  history :: "history_item list"
  isHistoryVisible :: bool
  theme :: string
  storage :: local_storage
  console :: "exn list"
  requests :: "request list"
  timers :: "(int \<times> nat) list"

text \<open>
  How a handler ends: it returns, it throws (the updates queued before the throw
  are still applied), or, for the asynchronous one, its promise never settles.
\<close>

datatype 's outcome = Done 's | Threw exn 's | Pending 's

fun stateOf :: "'s outcome \<Rightarrow> 's" where
  "stateOf (Done s) = s"
| "stateOf (Threw x s) = s"
| "stateOf (Pending s) = s"

fun isDone :: "'s outcome \<Rightarrow> bool" where
  "isDone (Done s) = True"
| "isDone (Threw x s) = False"
| "isDone (Pending s) = False"

subsection \<open>The outside world of one generation\<close>

text \<open>
  The text service rejects, or answers with a body that is not JSON, or with JSON
  that has no positive \<^verbatim>\<open>length\<close> (\<^verbatim>\<open>null\<close>, an object), or with an array of
  objects. The image service, asked once per item, rejects, answers with no image,
  or answers with the bytes of one image. \<open>setItemThrows\<close> says whether
  \<^verbatim>\<open>localStorage.setItem\<close> throws (the quota is exceeded).
\<close>

datatype text_reply = Rejects | NotJSON | NoLength | Items "item list"

datatype icon_reply = IconRejects | IconEmpty | IconBytes string

record env =
  textReply :: text_reply
  iconReply :: "nat \<Rightarrow> icon_reply"
  setItemThrows :: bool
  now :: nat
  isoNow :: string

subsection \<open>Resetting the input (lines 221-238)\<close>

definition resetInput :: "app \<Rightarrow> app" where
  "resetInput s =
     s\<lparr>textContent := [], imageFile := None, imagePreview := None,
       flashcards := [], mcqs := [], error := None\<rparr>"

definition changeInputType :: "input_type \<Rightarrow> app \<Rightarrow> app" where
  "changeInputType t s = resetInput (s\<lparr>inputType := t\<rparr>)"

definition changeGenerationMode :: "generation_mode \<Rightarrow> app \<Rightarrow> app" where
  "changeGenerationMode m s = resetInput (s\<lparr>generationMode := m\<rparr>)"

subsection \<open>The flashcard viewer (lines 240-251, 346)\<close>

text \<open>
  \<^verbatim>\<open>navigateCard\<close> turns the card to its front at once and leaves a callback in
  \<^verbatim>\<open>setTimeout\<close>; the callback holds the direction and the length of the list of
  the render that made it. Callbacks of one delay run in the order they were set.
\<close>

definition navigateCard :: "int \<Rightarrow> app \<Rightarrow> app" where
  "navigateCard direction s =
     s\<lparr>isFlipped := False,
       timers := timers s @ [(direction, length (flashcards s))]\<rparr>"

definition moveCard :: "int \<times> nat \<Rightarrow> int \<Rightarrow> int" where
  "moveCard t prev =
     (let next = prev + fst t
      in if 0 \<le> next \<and> next < int (snd t) then next else prev)"

definition timerFires :: "app \<Rightarrow> app" where
  "timerFires s =
     (case timers s of
        [] \<Rightarrow> s
      | t # ts \<Rightarrow> s\<lparr>currentCard := moveCard t (currentCard s), timers := ts\<rparr>)"

definition flipCard :: "app \<Rightarrow> app" where
  "flipCard s = s\<lparr>isFlipped := \<not> isFlipped s\<rparr>"

datatype card_event = Navigate int | TimerFires | Flip

fun card_step :: "app \<Rightarrow> card_event \<Rightarrow> app" where
  "card_step s (Navigate d) = navigateCard d s"
| "card_step s TimerFires = timerFires s"
| "card_step s Flip = flipCard s"

definition card_run :: "app \<Rightarrow> card_event list \<Rightarrow> app" where
  "card_run s es = foldl card_step s es"

definition card_in_range :: "app \<Rightarrow> bool" where
  "card_in_range s = (0 \<le> currentCard s \<and> currentCard s < int (length (flashcards s)))"

definition timers_current :: "app \<Rightarrow> bool" where
  "timers_current s = list_all (\<lambda>t. snd t = length (flashcards s)) (timers s)"

subsection \<open>The quiz (lines 253-278)\<close>

text \<open>
  \<^verbatim>\<open>mcqs[currentMcq]\<close> is \<^verbatim>\<open>undefined\<close> outside the list, and reading
  \<^verbatim>\<open>correctAnswer\<close> of it throws a \<^verbatim>\<open>TypeError\<close>, after the two updates before it
  were queued.
\<close>

definition handleOptionClick :: "string \<Rightarrow> app \<Rightarrow> app outcome" where
  "handleOptionClick option s =
     (if isAnswered s then Done s
      else
        let s1 = s\<lparr>isAnswered := True, selectedOption := Some option\<rparr>
        in if 0 \<le> currentMcq s \<and> currentMcq s < int (length (mcqs s))
           then (if Some option = correctAnswer (mcqs s ! nat (currentMcq s))
                 then Done (s1\<lparr>score := score s + 1\<rparr>)
                 else Done s1)
           else Threw TypeError s1)"

definition handleNextQuestion :: "app \<Rightarrow> app" where
  "handleNextQuestion s =
     (if currentMcq s < int (length (mcqs s)) - 1
      then s\<lparr>currentMcq := currentMcq s + 1, isAnswered := False, selectedOption := None\<rparr>
      else s\<lparr>quizFinished := True\<rparr>)"

definition restartQuiz :: "app \<Rightarrow> app" where
  "restartQuiz s =
     s\<lparr>currentMcq := 0, selectedOption := None, isAnswered := False,
       score := 0, quizFinished := False\<rparr>"

datatype mcq_event = SelectOption string | Next | Restart

fun mcq_step :: "app \<Rightarrow> mcq_event \<Rightarrow> app outcome" where
  "mcq_step s (SelectOption opt) = handleOptionClick opt s"
| "mcq_step s Next = Done (handleNextQuestion s)"
| "mcq_step s Restart = Done (restartQuiz s)"

fun mcq_run :: "app \<Rightarrow> mcq_event list \<Rightarrow> app outcome" where
  "mcq_run s [] = Done s"
| "mcq_run s (e # es) =
     (case mcq_step s e of
        Done s' \<Rightarrow> mcq_run s' es
      | Threw x s' \<Rightarrow> Threw x s'
      | Pending s' \<Rightarrow> Pending s')"

text \<open>
  The button that calls \<^verbatim>\<open>handleNextQuestion\<close> is rendered only when
  \<^verbatim>\<open>isAnswered\<close> holds (line 414). The other two transitions are taken here in
  every state, which is more than the interface offers.
\<close>

fun offered :: "app \<Rightarrow> mcq_event \<Rightarrow> bool" where
  "offered s Next = isAnswered s"
| "offered s (SelectOption opt) = True"
| "offered s Restart = True"

fun admissible :: "app \<Rightarrow> mcq_event list \<Rightarrow> bool" where
  "admissible s [] = True"
| "admissible s (e # es) =
     (offered s e \<and>
      (case mcq_step s e of
         Done s' \<Rightarrow> admissible s' es
       | Threw x s' \<Rightarrow> True
       | Pending s' \<Rightarrow> True))"

definition mcq_initial :: "app \<Rightarrow> bool" where
  "mcq_initial s =
     (currentMcq s = 0 \<and> selectedOption s = None \<and> \<not> isAnswered s \<and>
      score s = 0 \<and> \<not> quizFinished s)"

definition mcq_invariant :: "app \<Rightarrow> bool" where
  "mcq_invariant s =
     (score s \<le> currentMcq s + 1 \<and>
      (quizFinished s \<longrightarrow>
         currentMcq s = int (length (mcqs s)) - 1 \<and> isAnswered s))"

text \<open>
  The invariant in the form that every transition preserves: the index stays inside
  the list, and the score is at most the number of questions answered so far.
\<close>

definition mcq_strong :: "app \<Rightarrow> bool" where
  "mcq_strong s =
     (0 \<le> currentMcq s \<and> currentMcq s < int (length (mcqs s)) \<and>
      score s \<le> currentMcq s + (if isAnswered s then 1 else 0) \<and>
      (quizFinished s \<longrightarrow>
         currentMcq s = int (length (mcqs s)) - 1 \<and> isAnswered s))"

subsection \<open>Reopening a history record (lines 280-295)\<close>

definition themeOrDefault :: "string option \<Rightarrow> string" where
  "themeOrDefault t =
     (case t of None \<Rightarrow> ''default'' | Some n \<Rightarrow> if n = [] then ''default'' else n)"

definition handleViewHistoryItem :: "history_item \<Rightarrow> app \<Rightarrow> app" where
  "handleViewHistoryItem it s =
     (let s1 = s\<lparr>error := None, generationMode := hGenerationMode it,
                 theme := themeOrDefault (hTheme it)\<rparr>;
          s2 = (if hGenerationMode it = Flashcards
                then s1\<lparr>flashcards := generatedData it, mcqs := [],
                        currentCard := 0, isFlipped := False\<rparr>
                else restartQuiz (s1\<lparr>mcqs := generatedData it, flashcards := []\<rparr>))
      in s2\<lparr>isHistoryVisible := False\<rparr>)"

subsection \<open>Generating (lines 68-206)\<close>

text \<open>
  \<^verbatim>\<open>handleGenerate\<close> is asynchronous. It is taken here as one step, from the
  state at the click to the state when its promise settles, with no other event
  in between; what the services and the storage do during that step is given by an
  \<open>env\<close>.
\<close>

text \<open>The values the \<^verbatim>\<open>useState\<close> cells start with, and an empty outside world.\<close>

definition initialApp :: app where
  "initialApp =
     \<lparr>inputType = TextInput, generationMode = Flashcards, textContent = [],
      imageFile = None, imagePreview = None, generateIcons = False,
      flashcards = [], mcqs = [], isLoading = False, loadingMessage = [],
      error = None, currentCard = 0, isFlipped = False, currentMcq = 0,
      selectedOption = None, isAnswered = False, score = 0, quizFinished = False,
      history = [], isHistoryVisible = False, theme = ''default'',
      storage = \<lparr>studyAppHistory = None, studyAppTheme = None\<rparr>,
      console = [], requests = [], timers = []\<rparr>"

definition emptyInput :: "app \<Rightarrow> bool" where
  "emptyInput s =
     ((inputType s = TextInput \<and> textContent s = []) \<or>
      (inputType s = ImageInput \<and> imageFile s = None))"

definition startGeneration :: "app \<Rightarrow> app" where
  "startGeneration s =
     s\<lparr>isLoading := True, loadingMessage := ''Generating text content...'',
       error := None, flashcards := [], mcqs := [], currentCard := 0,
       isFlipped := False, currentMcq := 0, selectedOption := None,
       isAnswered := False, score := 0, quizFinished := False\<rparr>"

text \<open>
  \<^verbatim>\<open>fileToGenerativePart\<close> resolves its promise in \<^verbatim>\<open>onloadend\<close> with
  \<^verbatim>\<open>reader.result.split(",")[1]\<close>. When the read fails \<^verbatim>\<open>reader.result\<close> is
  \<^verbatim>\<open>null\<close>, the callback throws and the promise is never resolved.
\<close>

datatype 'a awaited = Resolved 'a | Rejected exn | Unsettled

definition secondField :: "string \<Rightarrow> string option" where
  "secondField url =
     (let rest = dropWhile (\<lambda>c. c \<noteq> CHR '','') url
      in if rest = [] then None
         else Some (takeWhile (\<lambda>c. c \<noteq> CHR '','') (tl rest)))"

definition fileToGenerativePart :: "picked_file option \<Rightarrow> part awaited" where
  "fileToGenerativePart f =
     (case f of
        None \<Rightarrow> Rejected TypeError
      | Some g \<Rightarrow>
          (case readResult g of
             None \<Rightarrow> Unsettled
           | Some url \<Rightarrow> Resolved (InlineData (secondField url) (fileType g))))"

definition firstPart :: "app \<Rightarrow> part awaited" where
  "firstPart s =
     (if inputType s = ImageInput then fileToGenerativePart (imageFile s)
      else Resolved (TextPart (textContent s)))"

definition mcqPrompt :: string where
  "mcqPrompt = ''Based on the following content, generate a set of multiple-choice questions (MCQs) for studying. Each MCQ should have a 'question', an array of four 'options', and the 'correctAnswer'. The 'correctAnswer' must be one of the strings from the 'options' array. Return the result as a JSON array of objects.''"

definition flashcardPrompt :: string where
  "flashcardPrompt = ''Based on the following content, generate a concise set of flashcards for studying. Each flashcard should have a 'question' and an 'answer'. Return the result as a JSON array of objects, where each object has a 'question' and 'answer' key.''"

definition promptFor :: "generation_mode \<Rightarrow> string" where
  "promptFor m = (if m = Mcqs then mcqPrompt else flashcardPrompt)"

definition iconPrompt :: "string \<Rightarrow> string" where
  "iconPrompt q =
     ''A simple, clean, minimalist vector icon representing '' @ [CHR 0x27] @ q @
     [CHR 0x27] @ ''. Flat design on a plain background.''"

definition iconRequests :: "item list \<Rightarrow> request list" where
  "iconRequests xs = map (\<lambda>it. GenerateImages (iconPrompt (question it))) xs"

definition withIcon :: "icon_reply \<Rightarrow> item \<Rightarrow> item" where
  "withIcon r it =
     (case r of
        IconBytes b \<Rightarrow> it\<lparr>icon := Some (''data:image/png;base64,'' @ b)\<rparr>
      | _ \<Rightarrow> it)"

text \<open>
  \<^verbatim>\<open>Promise.all\<close> rejects when one request rejects. When all resolve, the second
  \<^verbatim>\<open>map\<close> reads \<^verbatim>\<open>generatedImages[0].image\<close> of each answer, which throws for an
  answer with no image.
\<close>

definition enrich :: "(nat \<Rightarrow> icon_reply) \<Rightarrow> item list \<Rightarrow> exn + item list" where
  "enrich r xs =
     (let idx = [0..<length xs]
      in if list_ex (\<lambda>i. r i = IconRejects) idx then Inl IconError
         else if list_ex (\<lambda>i. r i = IconEmpty) idx then Inl TypeError
         else Inr (map (\<lambda>(i, it). withIcon (r i) it) (zip idx xs)))"

definition newHistoryItem :: "env \<Rightarrow> app \<Rightarrow> item list \<Rightarrow> history_item" where
  "newHistoryItem e s xs =
     \<lparr>hid = now e, timestamp = isoNow e, hInputType = inputType s,
      hGenerationMode = generationMode s,
      inputContent = (if inputType s = TextInput then Some (textContent s)
                      else imagePreview s),
      generatedData = xs, hTheme = Some (theme s)\<rparr>"

definition saveResult :: "env \<Rightarrow> item list \<Rightarrow> app \<Rightarrow> app outcome" where
  "saveResult e xs s =
     (let s1 = (if generationMode s = Mcqs then s\<lparr>mcqs := xs\<rparr> else s\<lparr>flashcards := xs\<rparr>);
          updatedHistory = newHistoryItem e s xs # history s;
          s2 = s1\<lparr>history := updatedHistory\<rparr>
      in if setItemThrows e then Threw QuotaExceededError s2
         else Done (s2\<lparr>storage := (storage s)\<lparr>studyAppHistory := Some updatedHistory\<rparr>\<rparr>))"

definition couldNotGenerate :: string where
  "couldNotGenerate = ''Could not generate content. Please try again with a different source.''"

definition tryBlock :: "env \<Rightarrow> app \<Rightarrow> app outcome" where
  "tryBlock e s =
     (case firstPart s of
        Unsettled \<Rightarrow> Pending s
      | Rejected x \<Rightarrow> Threw x s
      | Resolved p \<Rightarrow>
          (let s1 = s\<lparr>requests := requests s @
                      [GenerateContent [p, TextPart (promptFor (generationMode s))]
                         (generationMode s)]\<rparr>
           in case textReply e of
                Rejects \<Rightarrow> Threw ServiceError s1
              | NotJSON \<Rightarrow> Threw SyntaxError s1
              | NoLength \<Rightarrow> Done (s1\<lparr>error := Some couldNotGenerate\<rparr>)
              | Items xs \<Rightarrow>
                  if xs = [] then Done (s1\<lparr>error := Some couldNotGenerate\<rparr>)
                  else if generateIcons s
                  then (let s2 = s1\<lparr>loadingMessage :=
                                       ''Generating icons (this may take a moment)...'',
                                     requests := requests s1 @ iconRequests xs\<rparr>
                        in case enrich (iconReply e) xs of
                             Inl x \<Rightarrow> Threw x s2
                           | Inr ys \<Rightarrow> saveResult e ys s2)
                  else saveResult e xs s1))"

definition errorOccurred :: string where
  "errorOccurred = ''An error occurred while generating. Please check the console for details.''"

definition catchBlock :: "exn \<Rightarrow> app \<Rightarrow> app" where
  "catchBlock x s = s\<lparr>console := console s @ [x], error := Some errorOccurred\<rparr>"

definition finallyBlock :: "app \<Rightarrow> app" where
  "finallyBlock s = s\<lparr>isLoading := False, loadingMessage := []\<rparr>"

definition provideContent :: string where
  "provideContent = ''Please provide some content to generate.''"

definition handleGenerate :: "env \<Rightarrow> app \<Rightarrow> app outcome" where
  "handleGenerate e s =
     (if emptyInput s then Done (s\<lparr>error := Some provideContent\<rparr>)
      else
        case tryBlock e (startGeneration s) of
          Done s' \<Rightarrow> Done (finallyBlock s')
        | Threw x s' \<Rightarrow> Done (finallyBlock (catchBlock x s'))
        | Pending s' \<Rightarrow> Pending s')"

text \<open>What the specification asks of an MCQ item.\<close>

definition wellFormedMcq :: "item \<Rightarrow> bool" where
  "wellFormedMcq it =
     (case options it of
        None \<Rightarrow> False
      | Some os \<Rightarrow>
          length os = 4 \<and> distinct os \<and>
          (case correctAnswer it of None \<Rightarrow> False | Some c \<Rightarrow> c \<in> set os))"

section \<open>Lemmas\<close>

subsection \<open>The quiz\<close>

lemma mcq_step_strong:
  "mcq_strong s \<Longrightarrow> offered s e \<Longrightarrow>
   \<exists>s'. mcq_step s e = Done s' \<and> mcq_strong s' \<and> mcqs s' = mcqs s"
  by (cases e)
    (auto simp: mcq_strong_def handleOptionClick_def handleNextQuestion_def
      restartQuiz_def Let_def split: if_splits)

lemma mcq_run_strong:
  "mcq_strong s \<Longrightarrow> admissible s es \<Longrightarrow>
   \<exists>s'. mcq_run s es = Done s' \<and> mcq_strong s' \<and> mcqs s' = mcqs s"
proof (induction es arbitrary: s)
  case Nil
  then show ?case by simp
next
  case (Cons e es)
  from Cons.prems have off: "offered s e" by simp
  from mcq_step_strong[OF Cons.prems(1) off] obtain t where
    t: "mcq_step s e = Done t" "mcq_strong t" "mcqs t = mcqs s" by blast
  from Cons.prems(2) t(1) have "admissible t es" by simp
  from Cons.IH[OF t(2) this] t show ?case by auto
qed

subsection \<open>The flashcard viewer\<close>

lemma card_step_inv:
  "card_in_range s \<Longrightarrow> timers_current s \<Longrightarrow>
   card_in_range (card_step s e) \<and> timers_current (card_step s e) \<and>
   flashcards (card_step s e) = flashcards s"
  by (cases e)
    (auto simp: card_in_range_def timers_current_def navigateCard_def timerFires_def
      flipCard_def moveCard_def Let_def split: list.splits)

lemma card_run_inv:
  "card_in_range s \<Longrightarrow> timers_current s \<Longrightarrow>
   card_in_range (card_run s es) \<and> timers_current (card_run s es) \<and>
   flashcards (card_run s es) = flashcards s"
  unfolding card_run_def
proof (induction es arbitrary: s)
  case Nil
  then show ?case by simp
next
  case (Cons e es)
  from card_step_inv[OF Cons.prems] Cons.IH[of "card_step s e"] show ?case by simp
qed

subsection \<open>Generating\<close>

lemma start_fields:
  "generationMode (startGeneration s) = generationMode s"
  "generateIcons (startGeneration s) = generateIcons s"
  "mcqs (startGeneration s) = []"
  "flashcards (startGeneration s) = []"
  "firstPart (startGeneration s) = firstPart s"
  by (simp_all add: startGeneration_def firstPart_def)

lemma enrich_rejects:
  "i < length xs \<Longrightarrow> r i = IconRejects \<Longrightarrow> enrich r xs = Inl IconError"
  by (auto simp: enrich_def Let_def list_ex_iff)

lemma enrich_Inr_eq:
  "enrich r xs = Inr ys \<Longrightarrow>
   ys = map (\<lambda>(i, it). withIcon (r i) it) (zip [0..<length xs] xs)"
  unfolding enrich_def Let_def by (simp split: if_splits)

lemma withIcon_fields:
  "options (withIcon r it) = options it"
  "correctAnswer (withIcon r it) = correctAnswer it"
  "question (withIcon r it) = question it"
  by (cases r; simp add: withIcon_def)+

lemma wellFormed_withIcon: "wellFormedMcq (withIcon r it) = wellFormedMcq it"
  unfolding wellFormedMcq_def withIcon_fields ..

lemma map_indexed:
  "(\<And>i x. f (g i x) = f x) \<Longrightarrow> length ns = length xs \<Longrightarrow>
   map f (map (\<lambda>(i, x). g i x) (zip ns xs)) = map f xs"
proof (induction ns arbitrary: xs)
  case Nil
  then show ?case by simp
next
  case (Cons n ns)
  then obtain x xs' where xs: "xs = x # xs'" by (cases xs) auto
  with Cons show ?case by simp
qed

lemma list_all_map_eq: "map P ys = map P xs \<Longrightarrow> list_all P ys = list_all P xs"
proof (induction ys arbitrary: xs)
  case Nil
  then show ?case by simp
next
  case (Cons y ys)
  then obtain x xs' where xs: "xs = x # xs'" by (cases xs) auto
  from Cons.prems xs have "P y = P x" "map P ys = map P xs'" by simp_all
  with Cons.IH[of xs'] xs show ?case by simp
qed

lemma enrich_Inr:
  assumes "enrich r xs = Inr ys"
  shows "map options ys = map options xs"
    and "map correctAnswer ys = map correctAnswer xs"
    and "map question ys = map question xs"
    and "map wellFormedMcq ys = map wellFormedMcq xs"
proof -
  note ys = enrich_Inr_eq[OF assms]
  show "map options ys = map options xs" unfolding ys
    by (rule map_indexed) (simp_all add: withIcon_fields)
  show "map correctAnswer ys = map correctAnswer xs" unfolding ys
    by (rule map_indexed) (simp_all add: withIcon_fields)
  show "map question ys = map question xs" unfolding ys
    by (rule map_indexed) (simp_all add: withIcon_fields)
  show "map wellFormedMcq ys = map wellFormedMcq xs" unfolding ys
    by (rule map_indexed) (simp_all add: wellFormed_withIcon)
qed

lemma saveResult_mcqs:
  "generationMode t = Mcqs \<Longrightarrow> mcqs (stateOf (saveResult e ys t)) = ys"
  by (simp add: saveResult_def Let_def)

text \<open>
  In MCQ mode the try block leaves the displayed quiz empty, or shows the items of
  the reply, with their icons when icons were asked for.
\<close>

lemma tryBlock_mcqs:
  assumes "generationMode t = Mcqs" "mcqs t = []" "textReply e = Items xs"
  shows "mcqs (stateOf (tryBlock e t)) = [] \<or>
     (\<exists>ys. (if generateIcons t then enrich (iconReply e) xs else Inr xs) = Inr ys \<and>
        mcqs (stateOf (tryBlock e t)) = ys)"
proof (cases "firstPart t")
  case Unsettled
  then show ?thesis using assms(2) by (simp add: tryBlock_def)
next
  case (Rejected x)
  then show ?thesis using assms(2) by (simp add: tryBlock_def)
next
  case (Resolved p)
  show ?thesis
  proof (cases "xs = []")
    case True
    then show ?thesis using Resolved assms by (simp add: tryBlock_def Let_def)
  next
    case False
    show ?thesis
    proof (cases "generateIcons t")
      case False
      with Resolved assms \<open>xs \<noteq> []\<close> show ?thesis
        by (simp add: tryBlock_def Let_def saveResult_mcqs)
    next
      case True
      show ?thesis
      proof (cases "enrich (iconReply e) xs")
        case (Inl x)
        with True Resolved assms \<open>xs \<noteq> []\<close> show ?thesis
          by (simp add: tryBlock_def Let_def)
      next
        case (Inr ys)
        with True Resolved assms \<open>xs \<noteq> []\<close> show ?thesis
          by (simp add: tryBlock_def Let_def saveResult_mcqs)
      qed
    qed
  qed
qed

lemma handleGenerate_mcqs:
  "\<not> emptyInput s \<Longrightarrow>
   mcqs (stateOf (handleGenerate e s)) = mcqs (stateOf (tryBlock e (startGeneration s)))"
  by (cases "tryBlock e (startGeneration s)")
    (simp_all add: handleGenerate_def finallyBlock_def catchBlock_def)

section \<open>The claims\<close>

subsection \<open>The quiz\<close>

text \<open>
  C6. Once \<open>isAnswered\<close> holds, \<^verbatim>\<open>handleOptionClick\<close> returns at its first line:
  for every option, one call and any number of repeated calls leave the whole state
  as it was, \<open>selectedOption\<close> and \<open>score\<close> included.
\<close>

theorem selectOption_idempotent_once_answered:
  "isAnswered s \<Longrightarrow>
   handleOptionClick opt s = Done s \<and> mcq_run s (map SelectOption opts) = Done s"
  by (induction opts) (simp_all add: handleOptionClick_def)

theorem selectOption_idempotent_once_answered_witness:
  "isAnswered (initialApp\<lparr>isAnswered := True, selectedOption := Some ''a''\<rparr>) \<and>
   handleOptionClick ''b'' (initialApp\<lparr>isAnswered := True, selectedOption := Some ''a''\<rparr>) =
     Done (initialApp\<lparr>isAnswered := True, selectedOption := Some ''a''\<rparr>) \<and>
   mcq_run (initialApp\<lparr>isAnswered := True, selectedOption := Some ''a''\<rparr>)
     (map SelectOption [''b'', ''c'']) =
     Done (initialApp\<lparr>isAnswered := True, selectedOption := Some ''a''\<rparr>)"
  using selectOption_idempotent_once_answered
    [of "initialApp\<lparr>isAnswered := True, selectedOption := Some ''a''\<rparr>" "''b''" "[''b'', ''c'']"]
  by (simp add: handleOptionClick_def)

text \<open>
  C4. From the initial quiz state over a non-empty list of questions, every sequence
  of \<open>SelectOption\<close>, \<open>Next\<close> and \<open>Restart\<close> in which \<open>Next\<close> is taken only
  when the question is answered runs without a throw, leaves the questions as they
  were, and ends in a state with \<open>score \<le> currentMcq + 1\<close> in which
  \<open>quizFinished\<close> implies \<open>currentMcq = length mcqs - 1\<close> and \<open>isAnswered\<close>.
\<close>

theorem mcq_invariant_holds:
  assumes "mcq_initial s" and "mcqs s \<noteq> []" and "admissible s es"
  shows "\<exists>s'. mcq_run s es = Done s' \<and> mcqs s' = mcqs s \<and> mcq_invariant s'"
proof -
  have "mcq_strong s"
    using assms(1,2) by (simp add: mcq_initial_def mcq_strong_def)
  from mcq_run_strong[OF this assms(3)] show ?thesis
    by (auto simp: mcq_strong_def mcq_invariant_def split: if_splits)
qed

theorem mcq_invariant_holds_witness:
  "mcq_initial (initialApp\<lparr>mcqs :=
      [\<lparr>question = ''q'', answer = None, options = Some [''a'', ''b'', ''c'', ''d''],
        correctAnswer = Some ''a'', icon = None\<rparr>]\<rparr>) \<and>
   admissible (initialApp\<lparr>mcqs :=
      [\<lparr>question = ''q'', answer = None, options = Some [''a'', ''b'', ''c'', ''d''],
        correctAnswer = Some ''a'', icon = None\<rparr>]\<rparr>) [SelectOption ''a'', Next] \<and>
   (\<exists>s'. mcq_run (initialApp\<lparr>mcqs :=
      [\<lparr>question = ''q'', answer = None, options = Some [''a'', ''b'', ''c'', ''d''],
        correctAnswer = Some ''a'', icon = None\<rparr>]\<rparr>) [SelectOption ''a'', Next] = Done s' \<and>
      mcq_invariant s' \<and> quizFinished s' \<and> score s' = 1)"
proof -
  let ?s = "initialApp\<lparr>mcqs :=
      [\<lparr>question = ''q'', answer = None, options = Some [''a'', ''b'', ''c'', ''d''],
        correctAnswer = Some ''a'', icon = None\<rparr>]\<rparr>"
  have i: "mcq_initial ?s" by (simp add: mcq_initial_def initialApp_def)
  have n: "mcqs ?s \<noteq> []" by simp
  have a: "admissible ?s [SelectOption ''a'', Next]"
    by (simp add: handleOptionClick_def handleNextQuestion_def initialApp_def)
  have r: "mcq_run ?s [SelectOption ''a'', Next] =
      Done (?s\<lparr>isAnswered := True, selectedOption := Some ''a'', score := 1, quizFinished := True\<rparr>)"
    by (simp add: handleOptionClick_def handleNextQuestion_def initialApp_def)
  from mcq_invariant_holds[OF i n a] r i a show ?thesis by auto
qed

text \<open>
  C7. In a quiz of three questions, answering the first with its correct answer, the
  second with an option that is not its correct answer and the third with its
  correct answer, each answer followed by \<open>Next\<close>, ends with \<open>score = 2\<close> and
  \<open>quizFinished\<close>; before the third \<open>Next\<close> the quiz is not finished.
\<close>

theorem three_question_scenario:
  assumes "mcq_initial s" and "mcqs s = [q1, q2, q3]"
    and "correctAnswer q1 = Some a1" and "correctAnswer q2 \<noteq> Some a2"
    and "correctAnswer q3 = Some a3"
  shows "score (stateOf (mcq_run s
            [SelectOption a1, Next, SelectOption a2, Next, SelectOption a3, Next])) = 2 \<and>
         quizFinished (stateOf (mcq_run s
            [SelectOption a1, Next, SelectOption a2, Next, SelectOption a3, Next])) \<and>
         isDone (mcq_run s
            [SelectOption a1, Next, SelectOption a2, Next, SelectOption a3, Next]) \<and>
         \<not> quizFinished (stateOf (mcq_run s
            [SelectOption a1, Next, SelectOption a2, Next, SelectOption a3]))"
  using assms
  by (auto simp: mcq_initial_def handleOptionClick_def handleNextQuestion_def Let_def)

theorem three_question_scenario_witness:
  "score (stateOf (mcq_run (initialApp\<lparr>mcqs :=
      [\<lparr>question = ''q1'', answer = None, options = Some [''a'', ''b'', ''c'', ''d''],
         correctAnswer = Some ''a'', icon = None\<rparr>,
       \<lparr>question = ''q2'', answer = None, options = Some [''a'', ''b'', ''c'', ''d''],
         correctAnswer = Some ''b'', icon = None\<rparr>,
       \<lparr>question = ''q3'', answer = None, options = Some [''a'', ''b'', ''c'', ''d''],
         correctAnswer = Some ''c'', icon = None\<rparr>]\<rparr>)
     [SelectOption ''a'', Next, SelectOption ''a'', Next, SelectOption ''c'', Next])) = 2"
proof -
  let ?s = "initialApp\<lparr>mcqs :=
      [\<lparr>question = ''q1'', answer = None, options = Some [''a'', ''b'', ''c'', ''d''],
         correctAnswer = Some ''a'', icon = None\<rparr>,
       \<lparr>question = ''q2'', answer = None, options = Some [''a'', ''b'', ''c'', ''d''],
         correctAnswer = Some ''b'', icon = None\<rparr>,
       \<lparr>question = ''q3'', answer = None, options = Some [''a'', ''b'', ''c'', ''d''],
         correctAnswer = Some ''c'', icon = None\<rparr>]\<rparr>"
  have i: "mcq_initial ?s" by (simp add: mcq_initial_def initialApp_def)
  from three_question_scenario[OF i, of _ _ _ "''a''" "''a''" "''c''"] show ?thesis by simp
qed

subsection \<open>The flashcard viewer\<close>

text \<open>
  C5. With the current card inside a (hence non-empty) list and every waiting
  callback made for that list, any sequence of \<^verbatim>\<open>navigateCard\<close> calls (with any
  direction, \<open>-1\<close> and \<open>+1\<close> among them), timer callbacks and flips leaves
  \<open>currentCard\<close> in \<open>[0, length - 1]\<close>. \<^verbatim>\<open>navigateCard\<close> itself shows the front and
  does not move; its callback moves by the direction when the result is in range and
  leaves the index unchanged otherwise, with no wraparound and no error.
\<close>

theorem navigate_stays_in_range:
  assumes "card_in_range s" and "timers_current s"
  shows "card_in_range (card_run s es) \<and>
         flashcards (card_run s es) = flashcards s \<and>
         \<not> isFlipped (navigateCard d s) \<and>
         currentCard (navigateCard d s) = currentCard s \<and>
         (timers s = [] \<longrightarrow>
            \<not> isFlipped (timerFires (navigateCard d s)) \<and>
            currentCard (timerFires (navigateCard d s)) =
              (if 0 \<le> currentCard s + d \<and> currentCard s + d < int (length (flashcards s))
               then currentCard s + d else currentCard s))"
proof -
  have "card_in_range (card_run s es) \<and> flashcards (card_run s es) = flashcards s"
    using card_run_inv[OF assms] by simp
  moreover have "\<not> isFlipped (navigateCard d s) \<and> currentCard (navigateCard d s) = currentCard s"
    by (simp add: navigateCard_def)
  moreover have "timers s = [] \<longrightarrow>
            \<not> isFlipped (timerFires (navigateCard d s)) \<and>
            currentCard (timerFires (navigateCard d s)) =
              (if 0 \<le> currentCard s + d \<and> currentCard s + d < int (length (flashcards s))
               then currentCard s + d else currentCard s)"
    by (simp add: navigateCard_def timerFires_def moveCard_def Let_def)
  ultimately show ?thesis by simp
qed

theorem navigate_stays_in_range_witness:
  "card_in_range (initialApp\<lparr>flashcards :=
      [\<lparr>question = ''q1'', answer = Some ''a1'', options = None, correctAnswer = None, icon = None\<rparr>,
       \<lparr>question = ''q2'', answer = Some ''a2'', options = None, correctAnswer = None, icon = None\<rparr>]\<rparr>) \<and>
   timers_current (initialApp\<lparr>flashcards :=
      [\<lparr>question = ''q1'', answer = Some ''a1'', options = None, correctAnswer = None, icon = None\<rparr>,
       \<lparr>question = ''q2'', answer = Some ''a2'', options = None, correctAnswer = None, icon = None\<rparr>]\<rparr>) \<and>
   card_in_range (card_run (initialApp\<lparr>flashcards :=
      [\<lparr>question = ''q1'', answer = Some ''a1'', options = None, correctAnswer = None, icon = None\<rparr>,
       \<lparr>question = ''q2'', answer = Some ''a2'', options = None, correctAnswer = None, icon = None\<rparr>]\<rparr>)
     [Navigate 1, TimerFires, Navigate 1, TimerFires, Flip, Navigate (- 1)]) \<and>
   currentCard (timerFires (navigateCard (- 1) (initialApp\<lparr>flashcards :=
      [\<lparr>question = ''q1'', answer = Some ''a1'', options = None, correctAnswer = None, icon = None\<rparr>,
       \<lparr>question = ''q2'', answer = Some ''a2'', options = None, correctAnswer = None, icon = None\<rparr>]\<rparr>))) = 0"
proof -
  let ?s = "initialApp\<lparr>flashcards :=
      [\<lparr>question = ''q1'', answer = Some ''a1'', options = None, correctAnswer = None, icon = None\<rparr>,
       \<lparr>question = ''q2'', answer = Some ''a2'', options = None, correctAnswer = None, icon = None\<rparr>]\<rparr>"
  have r: "card_in_range ?s" by (simp add: card_in_range_def initialApp_def)
  have t: "timers_current ?s" by (simp add: timers_current_def initialApp_def)
  have e: "timers ?s = []" by (simp add: initialApp_def)
  have c: "currentCard ?s = 0" by (simp add: initialApp_def)
  from navigate_stays_in_range[OF r t, of _ "- 1"] r t e c show ?thesis by simp
qed

subsection \<open>Generating\<close>

text \<open>
  C1 (amended). \<^verbatim>\<open>handleGenerate\<close> does not check the items it receives. In MCQ mode,
  for every reply of the text service, the quiz it leaves is empty or has the
  reply's questions, options and correct answers, in the reply's order (an icon is
  all that is added). So the items of the quiz have four distinct options with the
  correct answer among them whenever the reply's items all have.
\<close>

theorem generated_mcqs_as_replied:
  assumes "generationMode s = Mcqs" and "\<not> emptyInput s"
    and "textReply e = Items xs"
  shows "(mcqs (stateOf (handleGenerate e s)) = [] \<or>
          map question (mcqs (stateOf (handleGenerate e s))) = map question xs \<and>
          map options (mcqs (stateOf (handleGenerate e s))) = map options xs \<and>
          map correctAnswer (mcqs (stateOf (handleGenerate e s))) = map correctAnswer xs) \<and>
         (list_all wellFormedMcq xs \<longrightarrow>
          list_all wellFormedMcq (mcqs (stateOf (handleGenerate e s))))"
proof -
  let ?t = "startGeneration s"
  have gm: "generationMode ?t = Mcqs" using assms(1) by (simp add: start_fields)
  have em: "mcqs ?t = []" by (simp add: start_fields)
  have gi: "generateIcons ?t = generateIcons s" by (simp add: start_fields)
  have hg: "mcqs (stateOf (handleGenerate e s)) = mcqs (stateOf (tryBlock e ?t))"
    using assms(2) by (rule handleGenerate_mcqs)
  note tb = tryBlock_mcqs[OF gm em assms(3), unfolded gi]
  from tb consider "mcqs (stateOf (tryBlock e ?t)) = []"
    | ys where "(if generateIcons s then enrich (iconReply e) xs else Inr xs) = Inr ys"
       "mcqs (stateOf (tryBlock e ?t)) = ys"
    by blast
  then show ?thesis
  proof cases
    case 1
    then show ?thesis by (simp add: hg)
  next
    case 2
    show ?thesis
    proof (cases "generateIcons s")
      case True
      with 2(1) have en: "enrich (iconReply e) xs = Inr ys" by simp
      have "list_all wellFormedMcq ys = list_all wellFormedMcq xs"
        using enrich_Inr(4)[OF en] by (rule list_all_map_eq)
      with enrich_Inr(1,2,3)[OF en] 2(2) show ?thesis by (simp add: hg)
    next
      case False
      with 2(1) have "ys = xs" by simp
      with 2(2) show ?thesis by (simp add: hg)
    qed
  qed
qed

theorem generated_mcqs_as_replied_witness:
  "list_all wellFormedMcq (mcqs (stateOf (handleGenerate
      \<lparr>textReply = Items
         [\<lparr>question = ''q'', answer = None, options = Some [''a'', ''b'', ''c'', ''d''],
           correctAnswer = Some ''a'', icon = None\<rparr>],
       iconReply = (\<lambda>i. IconRejects), setItemThrows = False, now = 0, isoNow = ''t''\<rparr>
      (initialApp\<lparr>generationMode := Mcqs, textContent := ''x''\<rparr>)))) \<and>
   map options (mcqs (stateOf (handleGenerate
      \<lparr>textReply = Items
         [\<lparr>question = ''q'', answer = None, options = Some [''a'', ''b'', ''c'', ''d''],
           correctAnswer = Some ''a'', icon = None\<rparr>],
       iconReply = (\<lambda>i. IconRejects), setItemThrows = False, now = 0, isoNow = ''t''\<rparr>
      (initialApp\<lparr>generationMode := Mcqs, textContent := ''x''\<rparr>)))) =
     [Some [''a'', ''b'', ''c'', ''d'']]"
proof -
  let ?q = "\<lparr>question = ''q'', answer = None, options = Some [''a'', ''b'', ''c'', ''d''],
           correctAnswer = Some ''a'', icon = None\<rparr>"
  let ?e = "\<lparr>textReply = Items [?q],
       iconReply = (\<lambda>i. IconRejects), setItemThrows = False, now = 0, isoNow = ''t''\<rparr>"
  let ?s = "initialApp\<lparr>generationMode := Mcqs, textContent := ''x''\<rparr>"
  have a: "generationMode ?s = Mcqs" by simp
  have b: "\<not> emptyInput ?s" by (simp add: emptyInput_def initialApp_def)
  have c: "textReply ?e = Items [?q]" by simp
  have d: "list_all wellFormedMcq [?q]" by (simp add: wellFormedMcq_def)
  have r: "mcqs (stateOf (handleGenerate ?e ?s)) = [?q]"
    by (simp add: handleGenerate_def emptyInput_def initialApp_def tryBlock_def firstPart_def
        startGeneration_def saveResult_def finallyBlock_def Let_def)
  from generated_mcqs_as_replied[OF a b c] d r show ?thesis by simp
qed

text \<open>
  The claim as written fails: a reply whose item has two options and a correct
  answer that is none of them is shown as the quiz, with no error.
\<close>

theorem generated_mcqs_counterexample:
  "isDone (handleGenerate
      \<lparr>textReply = Items
         [\<lparr>question = ''q'', answer = None, options = Some [''a'', ''b''],
           correctAnswer = Some ''z'', icon = None\<rparr>],
       iconReply = (\<lambda>i. IconRejects), setItemThrows = False, now = 0, isoNow = ''t''\<rparr>
      (initialApp\<lparr>generationMode := Mcqs, textContent := ''x''\<rparr>)) \<and>
   error (stateOf (handleGenerate
      \<lparr>textReply = Items
         [\<lparr>question = ''q'', answer = None, options = Some [''a'', ''b''],
           correctAnswer = Some ''z'', icon = None\<rparr>],
       iconReply = (\<lambda>i. IconRejects), setItemThrows = False, now = 0, isoNow = ''t''\<rparr>
      (initialApp\<lparr>generationMode := Mcqs, textContent := ''x''\<rparr>))) = None \<and>
   mcqs (stateOf (handleGenerate
      \<lparr>textReply = Items
         [\<lparr>question = ''q'', answer = None, options = Some [''a'', ''b''],
           correctAnswer = Some ''z'', icon = None\<rparr>],
       iconReply = (\<lambda>i. IconRejects), setItemThrows = False, now = 0, isoNow = ''t''\<rparr>
      (initialApp\<lparr>generationMode := Mcqs, textContent := ''x''\<rparr>))) =
     [\<lparr>question = ''q'', answer = None, options = Some [''a'', ''b''],
       correctAnswer = Some ''z'', icon = None\<rparr>] \<and>
   \<not> wellFormedMcq \<lparr>question = ''q'', answer = None, options = Some [''a'', ''b''],
       correctAnswer = Some ''z'', icon = None\<rparr>"
  by (simp add: handleGenerate_def emptyInput_def initialApp_def tryBlock_def firstPart_def
      startGeneration_def saveResult_def finallyBlock_def Let_def wellFormedMcq_def)

text \<open>
  C3 (amended). When the text is the empty string in text mode, or no file is
  selected in image mode, \<^verbatim>\<open>handleGenerate\<close> sets the message asking for content
  and returns: nothing else of the state changes, so no request is sent.
\<close>

theorem empty_input_rejected:
  "(inputType s = TextInput \<and> textContent s = [] \<or>
    inputType s = ImageInput \<and> imageFile s = None) \<Longrightarrow>
   handleGenerate e s = Done (s\<lparr>error := Some provideContent\<rparr>) \<and>
   requests (stateOf (handleGenerate e s)) = requests s"
  by (simp add: handleGenerate_def emptyInput_def)

theorem empty_input_rejected_witness:
  "inputType initialApp = TextInput \<and> textContent initialApp = [] \<and>
   handleGenerate
     \<lparr>textReply = Rejects, iconReply = (\<lambda>i. IconRejects), setItemThrows = False,
      now = 0, isoNow = ''t''\<rparr> initialApp =
     Done (initialApp\<lparr>error := Some provideContent\<rparr>)"
  using empty_input_rejected [of initialApp
     "\<lparr>textReply = Rejects, iconReply = (\<lambda>i. IconRejects), setItemThrows = False,
      now = 0, isoNow = ''t''\<rparr>"]
  by (simp add: initialApp_def)

text \<open>
  The claim as written fails for a text of one space: the guard does not fire, the
  request is sent and the reply's flashcard is shown.
\<close>

theorem whitespace_input_counterexample:
  "handleGenerate
     \<lparr>textReply = Items
        [\<lparr>question = ''q'', answer = Some ''a'', options = None, correctAnswer = None,
          icon = None\<rparr>],
      iconReply = (\<lambda>i. IconRejects), setItemThrows = False, now = 0, isoNow = ''t''\<rparr>
     (initialApp\<lparr>textContent := '' ''\<rparr>) \<noteq>
     Done (initialApp\<lparr>textContent := '' '', error := Some provideContent\<rparr>) \<and>
   error (stateOf (handleGenerate
     \<lparr>textReply = Items
        [\<lparr>question = ''q'', answer = Some ''a'', options = None, correctAnswer = None,
          icon = None\<rparr>],
      iconReply = (\<lambda>i. IconRejects), setItemThrows = False, now = 0, isoNow = ''t''\<rparr>
     (initialApp\<lparr>textContent := '' ''\<rparr>))) = None \<and>
   requests (stateOf (handleGenerate
     \<lparr>textReply = Items
        [\<lparr>question = ''q'', answer = Some ''a'', options = None, correctAnswer = None,
          icon = None\<rparr>],
      iconReply = (\<lambda>i. IconRejects), setItemThrows = False, now = 0, isoNow = ''t''\<rparr>
     (initialApp\<lparr>textContent := '' ''\<rparr>))) =
     [GenerateContent [TextPart '' '', TextPart flashcardPrompt] Flashcards] \<and>
   flashcards (stateOf (handleGenerate
     \<lparr>textReply = Items
        [\<lparr>question = ''q'', answer = Some ''a'', options = None, correctAnswer = None,
          icon = None\<rparr>],
      iconReply = (\<lambda>i. IconRejects), setItemThrows = False, now = 0, isoNow = ''t''\<rparr>
     (initialApp\<lparr>textContent := '' ''\<rparr>))) =
     [\<lparr>question = ''q'', answer = Some ''a'', options = None, correctAnswer = None,
       icon = None\<rparr>]"
  by (simp add: handleGenerate_def emptyInput_def initialApp_def tryBlock_def firstPart_def
      startGeneration_def saveResult_def finallyBlock_def Let_def promptFor_def)

text \<open>
  C2. When icons are asked for and one of the icon requests rejects, the generation
  fails as a whole: the rejection is caught and logged, the general error message
  is set, the history and the storage are as before, both displayed lists are
  empty (so no item with an icon is kept anywhere), and loading has ended.
\<close>

theorem icon_rejection_fails_generation:
  assumes "\<not> emptyInput s" and "firstPart s = Resolved p"
    and "textReply e = Items xs" and "generateIcons s"
    and "i < length xs" and "iconReply e i = IconRejects"
  shows "\<exists>s'. handleGenerate e s = Done s' \<and>
           console s' = console s @ [IconError] \<and>
           error s' = Some errorOccurred \<and>
           history s' = history s \<and> storage s' = storage s \<and>
           flashcards s' = [] \<and> mcqs s' = [] \<and> \<not> isLoading s'"
proof -
  let ?t = "startGeneration s"
  let ?r1 = "requests s @
      [GenerateContent [p, TextPart (promptFor (generationMode s))] (generationMode s)]"
  have ne: "xs \<noteq> []" using assms(5) by auto
  have en: "enrich (iconReply e) xs = Inl IconError"
    using assms(5,6) by (rule enrich_rejects[where r = "iconReply e"])
  have fp: "firstPart ?t = Resolved p" using assms(2) by (simp add: start_fields)
  have gi: "generateIcons ?t" using assms(4) by (simp add: start_fields)
  have "tryBlock e ?t = Threw IconError
     (?t\<lparr>requests := requests ?t @
           [GenerateContent [p, TextPart (promptFor (generationMode ?t))] (generationMode ?t)],
         loadingMessage := ''Generating icons (this may take a moment)...'',
         requests := (requests ?t @
           [GenerateContent [p, TextPart (promptFor (generationMode ?t))] (generationMode ?t)])
           @ iconRequests xs\<rparr>)"
    using fp assms(3) ne en gi by (simp add: tryBlock_def Let_def)
  then show ?thesis using assms(1)
    by (simp add: handleGenerate_def catchBlock_def finallyBlock_def startGeneration_def)
qed

theorem icon_rejection_fails_generation_witness:
  "\<exists>s'. handleGenerate
      \<lparr>textReply = Items
         [\<lparr>question = ''q1'', answer = None, options = Some [''a'', ''b'', ''c'', ''d''],
           correctAnswer = Some ''a'', icon = None\<rparr>,
          \<lparr>question = ''q2'', answer = None, options = Some [''a'', ''b'', ''c'', ''d''],
           correctAnswer = Some ''b'', icon = None\<rparr>],
       iconReply = (\<lambda>i. if i = 1 then IconRejects else IconBytes ''AAAA''),
       setItemThrows = False, now = 0, isoNow = ''t''\<rparr>
      (initialApp\<lparr>generationMode := Mcqs, textContent := ''x'', generateIcons := True\<rparr>) =
        Done s' \<and>
      console s' = [IconError] \<and> history s' = [] \<and> mcqs s' = [] \<and> flashcards s' = []"
proof -
  let ?xs = "[\<lparr>question = ''q1'', answer = None, options = Some [''a'', ''b'', ''c'', ''d''],
           correctAnswer = Some ''a'', icon = None\<rparr>,
          \<lparr>question = ''q2'', answer = None, options = Some [''a'', ''b'', ''c'', ''d''],
           correctAnswer = Some ''b'', icon = None\<rparr>]"
  let ?e = "\<lparr>textReply = Items ?xs,
       iconReply = (\<lambda>i. if i = 1 then IconRejects else IconBytes ''AAAA''),
       setItemThrows = False, now = 0, isoNow = ''t''\<rparr>"
  let ?s = "initialApp\<lparr>generationMode := Mcqs, textContent := ''x'', generateIcons := True\<rparr>"
  have a: "\<not> emptyInput ?s" by (simp add: emptyInput_def initialApp_def)
  have b: "firstPart ?s = Resolved (TextPart ''x'')" by (simp add: firstPart_def initialApp_def)
  have c: "textReply ?e = Items ?xs" by simp
  have d: "generateIcons ?s" by simp
  have f: "(1::nat) < length ?xs" by simp
  have g: "iconReply ?e 1 = IconRejects" by simp
  have h: "console ?s = []" "history ?s = []" by (simp_all add: initialApp_def)
  from icon_rejection_fails_generation[OF a b c d f g] h show ?thesis by auto
qed

text \<open>
  C8 (amended). When \<^verbatim>\<open>localStorage.setItem\<close> throws after the items were produced,
  the throw is caught and logged, and the generation stands: the items stay
  displayed, the history in memory has the new record at its head, the storage is as
  before and loading has ended.
\<close>

theorem storage_write_failure:
  assumes "\<not> emptyInput s" and "firstPart s = Resolved p"
    and "textReply e = Items xs" and "xs \<noteq> []"
    and "(if generateIcons s then enrich (iconReply e) xs else Inr xs) = Inr ys"
    and "setItemThrows e"
  shows "\<exists>s'. handleGenerate e s = Done s' \<and>
           (if generationMode s = Mcqs then mcqs s' = ys \<and> flashcards s' = []
            else flashcards s' = ys \<and> mcqs s' = []) \<and>
           history s' = newHistoryItem e s ys # history s \<and>
           storage s' = storage s \<and>
           console s' = console s @ [QuotaExceededError] \<and> \<not> isLoading s'"
proof -
  let ?t = "startGeneration s"
  have fp: "firstPart ?t = Resolved p" using assms(2) by (simp add: start_fields)
  show ?thesis
  proof (cases "generateIcons s")
    case True
    with assms(5) have en: "enrich (iconReply e) xs = Inr ys" by simp
    have gi: "generateIcons ?t" using True by (simp add: start_fields)
    have "\<exists>u. tryBlock e ?t = Threw QuotaExceededError u \<and>
        (if generationMode s = Mcqs then mcqs u = ys \<and> flashcards u = []
         else flashcards u = ys \<and> mcqs u = []) \<and>
        history u = newHistoryItem e s ys # history s \<and> storage u = storage s \<and>
        console u = console s"
      using fp assms(3,4,6) en gi
      by (simp add: tryBlock_def Let_def saveResult_def newHistoryItem_def startGeneration_def)
    then show ?thesis using assms(1)
      by (auto simp: handleGenerate_def catchBlock_def finallyBlock_def)
  next
    case False
    with assms(5) have ys: "ys = xs" by simp
    have gi: "\<not> generateIcons ?t" using False by (simp add: start_fields)
    have "\<exists>u. tryBlock e ?t = Threw QuotaExceededError u \<and>
        (if generationMode s = Mcqs then mcqs u = ys \<and> flashcards u = []
         else flashcards u = ys \<and> mcqs u = []) \<and>
        history u = newHistoryItem e s ys # history s \<and> storage u = storage s \<and>
        console u = console s"
      using fp assms(3,4,6) ys gi
      by (simp add: tryBlock_def Let_def saveResult_def newHistoryItem_def startGeneration_def)
    then show ?thesis using assms(1)
      by (auto simp: handleGenerate_def catchBlock_def finallyBlock_def)
  qed
qed

theorem storage_write_failure_witness:
  "\<exists>s'. handleGenerate
      \<lparr>textReply = Items
         [\<lparr>question = ''q'', answer = Some ''a'', options = None, correctAnswer = None,
           icon = None\<rparr>],
       iconReply = (\<lambda>i. IconRejects), setItemThrows = True, now = 7, isoNow = ''t''\<rparr>
      (initialApp\<lparr>textContent := ''x''\<rparr>) = Done s' \<and>
      flashcards s' =
         [\<lparr>question = ''q'', answer = Some ''a'', options = None, correctAnswer = None,
           icon = None\<rparr>] \<and>
      map hid (history s') = [7] \<and>
      studyAppHistory (storage s') = None \<and>
      console s' = [QuotaExceededError]"
proof -
  let ?xs = "[\<lparr>question = ''q'', answer = Some ''a'', options = None, correctAnswer = None,
           icon = None\<rparr>]"
  let ?e = "\<lparr>textReply = Items ?xs,
       iconReply = (\<lambda>i. IconRejects), setItemThrows = True, now = 7, isoNow = ''t''\<rparr>"
  let ?s = "initialApp\<lparr>textContent := ''x''\<rparr>"
  have a: "\<not> emptyInput ?s" by (simp add: emptyInput_def initialApp_def)
  have b: "firstPart ?s = Resolved (TextPart ''x'')" by (simp add: firstPart_def initialApp_def)
  have c: "textReply ?e = Items ?xs" by simp
  have d: "?xs \<noteq> []" by simp
  have f: "(if generateIcons ?s then enrich (iconReply ?e) ?xs else Inr ?xs) = Inr ?xs"
    by (simp add: initialApp_def)
  have g: "setItemThrows ?e" by simp
  have h: "console ?s = []" "history ?s = []" "generationMode ?s = Flashcards"
    "storage ?s = \<lparr>studyAppHistory = None, studyAppTheme = None\<rparr>"
    by (simp_all add: initialApp_def)
  from storage_write_failure[OF a b c d f g] h show ?thesis
    by (auto simp: newHistoryItem_def)
qed

text \<open>
  The claim as written fails where it says that nothing but a log entry reaches the
  user: the write is inside the \<^verbatim>\<open>try\<close> block of the generation, so its throw
  also sets the general error message, which the page shows (line 528). Here: a text,
  one flashcard in the reply, a storage that refuses the write.
\<close>

theorem storage_write_failure_counterexample:
  "error (stateOf (handleGenerate
      \<lparr>textReply = Items
         [\<lparr>question = ''q'', answer = Some ''a'', options = None, correctAnswer = None,
           icon = None\<rparr>],
       iconReply = (\<lambda>i. IconRejects), setItemThrows = True, now = 7, isoNow = ''t''\<rparr>
      (initialApp\<lparr>textContent := ''x''\<rparr>))) = Some errorOccurred \<and>
   flashcards (stateOf (handleGenerate
      \<lparr>textReply = Items
         [\<lparr>question = ''q'', answer = Some ''a'', options = None, correctAnswer = None,
           icon = None\<rparr>],
       iconReply = (\<lambda>i. IconRejects), setItemThrows = True, now = 7, isoNow = ''t''\<rparr>
      (initialApp\<lparr>textContent := ''x''\<rparr>))) =
     [\<lparr>question = ''q'', answer = Some ''a'', options = None, correctAnswer = None,
       icon = None\<rparr>]"
  by (simp add: handleGenerate_def emptyInput_def initialApp_def tryBlock_def firstPart_def
      startGeneration_def saveResult_def finallyBlock_def catchBlock_def Let_def)

subsection \<open>History and input\<close>

text \<open>
  C9. Reopening a history record whose theme is missing or empty sets the theme to
  \<open>default\<close>; a record with a non-empty theme sets that theme. A flashcard record
  shows its items from card 0, front up, and empties the quiz; an MCQ record shows
  its items with the quiz in its initial state and empties the flashcards.
\<close>

theorem view_history_item:
  "(hTheme it = None \<or> hTheme it = Some [] \<longrightarrow>
      theme (handleViewHistoryItem it s) = ''default'') \<and>
   (hTheme it = Some t \<and> t \<noteq> [] \<longrightarrow> theme (handleViewHistoryItem it s) = t) \<and>
   generationMode (handleViewHistoryItem it s) = hGenerationMode it \<and>
   (hGenerationMode it = Flashcards \<longrightarrow>
      flashcards (handleViewHistoryItem it s) = generatedData it \<and>
      mcqs (handleViewHistoryItem it s) = [] \<and>
      currentCard (handleViewHistoryItem it s) = 0 \<and>
      \<not> isFlipped (handleViewHistoryItem it s)) \<and>
   (hGenerationMode it = Mcqs \<longrightarrow>
      mcqs (handleViewHistoryItem it s) = generatedData it \<and>
      flashcards (handleViewHistoryItem it s) = [] \<and>
      mcq_initial (handleViewHistoryItem it s))"
  by (cases "hGenerationMode it")
    (auto simp: handleViewHistoryItem_def themeOrDefault_def restartQuiz_def
      mcq_initial_def Let_def)

theorem view_history_item_witness:
  "theme (handleViewHistoryItem
      \<lparr>hid = 1, timestamp = ''t'', hInputType = TextInput, hGenerationMode = Flashcards,
       inputContent = Some ''x'',
       generatedData = [\<lparr>question = ''q'', answer = Some ''a'', options = None,
                          correctAnswer = None, icon = None\<rparr>],
       hTheme = None\<rparr> (initialApp\<lparr>theme := ''ocean'', currentCard := 3\<rparr>)) = ''default'' \<and>
   currentCard (handleViewHistoryItem
      \<lparr>hid = 1, timestamp = ''t'', hInputType = TextInput, hGenerationMode = Flashcards,
       inputContent = Some ''x'',
       generatedData = [\<lparr>question = ''q'', answer = Some ''a'', options = None,
                          correctAnswer = None, icon = None\<rparr>],
       hTheme = None\<rparr> (initialApp\<lparr>theme := ''ocean'', currentCard := 3\<rparr>)) = 0 \<and>
   theme (handleViewHistoryItem
      \<lparr>hid = 2, timestamp = ''t'', hInputType = TextInput, hGenerationMode = Mcqs,
       inputContent = Some ''x'',
       generatedData = [\<lparr>question = ''q'', answer = None,
                          options = Some [''a'', ''b'', ''c'', ''d''],
                          correctAnswer = Some ''a'', icon = None\<rparr>],
       hTheme = Some ''dark''\<rparr> (initialApp\<lparr>score := 4, quizFinished := True\<rparr>)) = ''dark'' \<and>
   mcq_initial (handleViewHistoryItem
      \<lparr>hid = 2, timestamp = ''t'', hInputType = TextInput, hGenerationMode = Mcqs,
       inputContent = Some ''x'',
       generatedData = [\<lparr>question = ''q'', answer = None,
                          options = Some [''a'', ''b'', ''c'', ''d''],
                          correctAnswer = Some ''a'', icon = None\<rparr>],
       hTheme = Some ''dark''\<rparr> (initialApp\<lparr>score := 4, quizFinished := True\<rparr>))"
  using view_history_item [of
      "\<lparr>hid = 1, timestamp = ''t'', hInputType = TextInput, hGenerationMode = Flashcards,
       inputContent = Some ''x'',
       generatedData = [\<lparr>question = ''q'', answer = Some ''a'', options = None,
                          correctAnswer = None, icon = None\<rparr>],
       hTheme = None\<rparr>" "initialApp\<lparr>theme := ''ocean'', currentCard := 3\<rparr>" "''dark''"]
    view_history_item [of
      "\<lparr>hid = 2, timestamp = ''t'', hInputType = TextInput, hGenerationMode = Mcqs,
       inputContent = Some ''x'',
       generatedData = [\<lparr>question = ''q'', answer = None,
                          options = Some [''a'', ''b'', ''c'', ''d''],
                          correctAnswer = Some ''a'', icon = None\<rparr>],
       hTheme = Some ''dark''\<rparr>" "initialApp\<lparr>score := 4, quizFinished := True\<rparr>" "''dark''"]
  by simp

text \<open>
  C10. Changing the input type or the generation mode, in every state, empties the
  text, the selected image and its preview, both displayed lists and the error
  message, and leaves the history, the theme and the storage as they were.
\<close>

theorem switching_resets_input:
  "inputType (changeInputType ty s) = ty \<and>
   textContent (changeInputType ty s) = [] \<and>
   imageFile (changeInputType ty s) = None \<and>
   imagePreview (changeInputType ty s) = None \<and>
   flashcards (changeInputType ty s) = [] \<and>
   mcqs (changeInputType ty s) = [] \<and>
   error (changeInputType ty s) = None \<and>
   history (changeInputType ty s) = history s \<and>
   theme (changeInputType ty s) = theme s \<and>
   storage (changeInputType ty s) = storage s \<and>
   generationMode (changeGenerationMode m s) = m \<and>
   textContent (changeGenerationMode m s) = [] \<and>
   imageFile (changeGenerationMode m s) = None \<and>
   imagePreview (changeGenerationMode m s) = None \<and>
   flashcards (changeGenerationMode m s) = [] \<and>
   mcqs (changeGenerationMode m s) = [] \<and>
   error (changeGenerationMode m s) = None \<and>
   history (changeGenerationMode m s) = history s \<and>
   theme (changeGenerationMode m s) = theme s \<and>
   storage (changeGenerationMode m s) = storage s"
  by (simp add: changeInputType_def changeGenerationMode_def resetInput_def)

end
